theory Spec2Isabelle
  imports Main
begin

section \<open>Python values, exceptions and the outside world\<close>

text \<open>
  The validator of \<^verbatim>\<open>lookout_validator_ssl.py\<close> handles values parsed from JSON bodies.
  They are modelled by \<open>pyval\<close>: \<open>PNone\<close> is Python's \<open>None\<close> (JSON \<open>null\<close>), a
  dictionary is an association list read with \<open>map_of\<close>, and a non-integer number is kept
  as its literal. A Python \<open>str\<close> is a \<open>string\<close>, one \<open>char\<close> per character (code points
  below 256).
\<close>

datatype pyval =
    PNone
  | PBool bool
  | PInt int
  | PFloat string
  | PStr string
  | PList "pyval list"
  | PDict "(string \<times> pyval) list"

text \<open>
  Every \<^verbatim>\<open>raise\<close> is a value. \<open>RequestException\<close> stands for the whole class
  \<^verbatim>\<open>requests.exceptions.RequestException\<close> (the only class the two HTTP helpers catch)
  and carries \<^verbatim>\<open>str(e)\<close>.
\<close>

datatype exn =
    RequestException string
  | FileNotFoundError
  | KeyError string
  | AttributeError
  | TypeError
  | OtherException string

text \<open>\<^verbatim>\<open>d.get(k, default)\<close>: only a dictionary has the method.\<close>

definition dict_get :: "(string \<times> pyval) list \<Rightarrow> string \<Rightarrow> pyval \<Rightarrow> pyval" where
  "dict_get d k dflt = (case map_of d k of Some v \<Rightarrow> v | None \<Rightarrow> dflt)"

fun py_get :: "pyval \<Rightarrow> string \<Rightarrow> pyval \<Rightarrow> exn + pyval" where
  "py_get (PDict d) k dflt = Inr (dict_get d k dflt)"
| "py_get _ k dflt = Inl AttributeError"

text \<open>\<^verbatim>\<open>d[k]\<close> with a string key: a missing key raises \<^verbatim>\<open>KeyError\<close>.\<close>

fun py_getitem :: "pyval \<Rightarrow> string \<Rightarrow> exn + pyval" where
  "py_getitem (PDict d) k = (case map_of d k of Some v \<Rightarrow> Inr v | None \<Rightarrow> Inl (KeyError k))"
| "py_getitem _ k = Inl TypeError"

text \<open>Decimal notation of an integer, as \<^verbatim>\<open>str\<close> and an f-string print it.\<close>

definition digit_char :: "nat \<Rightarrow> char" where
  "digit_char d = ''0123456789'' ! d"

fun str_nat :: "nat \<Rightarrow> string" where
  "str_nat n = (if n < 10 then [digit_char n] else str_nat (n div 10) @ [digit_char (n mod 10)])"

definition str_int :: "int \<Rightarrow> string" where
  "str_int i = (if i < 0 then CHR ''-'' # str_nat (nat (- i)) else str_nat (nat i))"

text \<open>
  A response of the \<^verbatim>\<open>requests\<close> library: \<open>resp_text\<close> is \<^verbatim>\<open>response.text\<close> and
  \<open>resp_json\<close> the outcome of calling \<^verbatim>\<open>response.json()\<close>, which raises on a body that
  is not JSON.
\<close>

record response =
  status_code :: int
  resp_text :: string
  resp_json :: "exn + pyval"

record request =
  url :: string
  headers :: "(string \<times> string) list"
  payload :: "(string \<times> pyval) list"
  timeout :: nat
  verify :: bool

text \<open>
  What the validation of one key observes of its environment: the two HTTP calls, the
  clock, and the text Python prints for a float, a list or a dictionary in an f-string.
\<close>

record world =
  requests_post :: "request \<Rightarrow> exn + response"
  requests_get :: "request \<Rightarrow> exn + response"
  datetime_now :: string
  repr_of :: "pyval \<Rightarrow> string"

text \<open>\<^verbatim>\<open>f'{v}'\<close>.\<close>

fun py_format :: "world \<Rightarrow> pyval \<Rightarrow> string" where
  "py_format w PNone = ''None''"
| "py_format w (PBool b) = (if b then ''True'' else ''False'')"
| "py_format w (PInt i) = str_int i"
| "py_format w (PStr s) = s"
| "py_format w v = repr_of w v"

section \<open>LookoutAPIValidator\<close>

record validator =
  base_url :: string
  token_endpoint :: string
  test_endpoint :: string
  skip_ssl_verify :: bool

definition rstrip_slash :: "string \<Rightarrow> string" where
  "rstrip_slash s = rev (dropWhile (\<lambda>c. c = CHR ''/'') (rev s))"

definition init_validator :: "string \<Rightarrow> bool \<Rightarrow> validator" where
  "init_validator u skip =
     \<lparr>base_url = rstrip_slash u,
      token_endpoint = rstrip_slash u @ ''/oauth2/token'',
      test_endpoint = rstrip_slash u @ ''/mra/api/v2/devices'',
      skip_ssl_verify = skip\<rparr>"

text \<open>
  \<^verbatim>\<open>except requests.exceptions.RequestException as e\<close>: the handler of both helpers. Any
  other exception leaves the helper.
\<close>

fun network_error :: "exn \<Rightarrow> exn + bool \<times> pyval" where
  "network_error (RequestException m) =
     Inr (False, PDict [(''error'', PStr ''Network error''), (''message'', PStr m)])"
| "network_error e = Inl e"

definition http_error :: "response \<Rightarrow> pyval" where
  "http_error r =
     PDict [(''error'', PStr (''HTTP '' @ str_int (status_code r))),
            (''message'', PStr (resp_text r)),
            (''status_code'', PInt (status_code r))]"

definition token_request :: "validator \<Rightarrow> string \<Rightarrow> string option \<Rightarrow> request" where
  "token_request self key scope =
     \<lparr>url = token_endpoint self,
      headers = [(''Accept'', ''application/json''),
                 (''Authorization'', ''Bearer '' @ key),
                 (''Content-Type'', ''application/x-www-form-urlencoded'')],
      payload = (''grant_type'', PStr ''client_credentials'') #
                (case scope of
                   None \<Rightarrow> []
                 | Some s \<Rightarrow> if s \<noteq> [] then [(''scope'', PStr s)] else []),
      timeout = 30,
      verify = (\<not> skip_ssl_verify self)\<rparr>"

definition get_access_token ::
    "world \<Rightarrow> validator \<Rightarrow> string \<Rightarrow> string option \<Rightarrow> exn + bool \<times> pyval" where
  "get_access_token w self key scope =
     (case requests_post w (token_request self key scope) of
        Inl e \<Rightarrow> network_error e
      | Inr r \<Rightarrow>
          if status_code r = 200 then
            (case resp_json r of
               Inl e \<Rightarrow> network_error e
             | Inr body \<Rightarrow> Inr (True, body))
          else Inr (False, http_error r))"

definition probe_request :: "world \<Rightarrow> validator \<Rightarrow> pyval \<Rightarrow> request" where
  "probe_request w self access_token =
     \<lparr>url = test_endpoint self,
      headers = [(''Accept'', ''application/json''),
                 (''Authorization'', ''Bearer '' @ py_format w access_token)],
      payload = [(''limit'', PInt 1)],
      timeout = 30,
      verify = (\<not> skip_ssl_verify self)\<rparr>"

definition test_api_access :: "world \<Rightarrow> validator \<Rightarrow> pyval \<Rightarrow> exn + bool \<times> pyval" where
  "test_api_access w self access_token =
     (case requests_get w (probe_request w self access_token) of
        Inl e \<Rightarrow> network_error e
      | Inr r \<Rightarrow>
          if status_code r = 200 then
            (case resp_json r of
               Inl e \<Rightarrow> network_error e
             | Inr body \<Rightarrow>
                 (case py_get body ''count'' (PInt 0) of
                    Inl e \<Rightarrow> network_error e
                  | Inr c \<Rightarrow>
                      Inr (True, PDict [(''device_count'', c),
                                        (''api_accessible'', PBool True)])))
          else Inr (False, http_error r))"

text \<open>
  The result dictionary of \<^verbatim>\<open>validate_key\<close>. The keys \<^verbatim>\<open>token_info\<close> and
  \<^verbatim>\<open>api_info\<close> are added on the way, so they are optional: \<open>None\<close> is "the key is not
  in the dictionary".
\<close>

record validation_result =
  application_key :: string
  timestamp :: string
  valid :: bool
  token_obtained :: bool
  api_accessible :: bool
  ssl_verify_skipped :: bool
  errors :: "string list"
  token_info :: "pyval option"
  api_info :: "pyval option"

definition redact :: "string \<Rightarrow> string" where
  "redact key = (if length key > 20 then take 20 key @ ''...'' else key)"

definition new_result :: "world \<Rightarrow> validator \<Rightarrow> string \<Rightarrow> validation_result" where
  "new_result w self key =
     \<lparr>application_key = redact key,
      timestamp = datetime_now w,
      valid = False,
      token_obtained = False,
      api_accessible = False,
      ssl_verify_skipped = skip_ssl_verify self,
      errors = [],
      token_info = None,
      api_info = None\<rparr>"

text \<open>Sequencing of steps that may raise: the first exception ends the function.\<close>

definition and_then :: "exn + 'a \<Rightarrow> ('a \<Rightarrow> exn + 'b) \<Rightarrow> exn + 'b" where
  "and_then m f = (case m of Inl e \<Rightarrow> Inl e | Inr x \<Rightarrow> f x)"

text \<open>
  Both phases report a failure the same way (source lines 153 and 173):
  \<^verbatim>\<open>result['errors'].append(f"<what>{data.get('error', 'Unknown error')}")\<close>.
\<close>

definition report_failure ::
    "world \<Rightarrow> string \<Rightarrow> pyval \<Rightarrow> validation_result \<Rightarrow> exn + validation_result" where
  "report_failure w what info result =
     and_then (py_get info ''error'' (PStr ''Unknown error'')) (\<lambda>err.
       Inr (result\<lparr>errors := errors result @ [what @ py_format w err]\<rparr>))"

text \<open>The dictionary stored under \<^verbatim>\<open>token_info\<close> (source lines 158 to 163).\<close>

definition token_metadata :: "pyval \<Rightarrow> exn + pyval" where
  "token_metadata token_data =
     and_then (py_get token_data ''token_type'' PNone) (\<lambda>token_type.
     and_then (py_get token_data ''expires_in'' PNone) (\<lambda>expires_in.
     and_then (py_get token_data ''expires_at'' PNone) (\<lambda>expires_at.
     and_then (py_get token_data ''scope'' (PStr '''')) (\<lambda>scope_granted.
       Inr (PDict [(''token_type'', token_type),
                   (''expires_in'', expires_in),
                   (''expires_at'', expires_at),
                   (''scope'', scope_granted)])))))"

text \<open>
  The second phase of \<^verbatim>\<open>validate_key\<close> (source lines 167 to 184), entered with the
  result as the token phase left it. Console output is not modelled.
\<close>

definition api_phase ::
    "world \<Rightarrow> validator \<Rightarrow> pyval \<Rightarrow> validation_result \<Rightarrow> exn + validation_result" where
  "api_phase w self token_data result =
     and_then (py_getitem token_data ''access_token'') (\<lambda>access_token.
     and_then (test_api_access w self access_token) (\<lambda>(api_success, api_data).
       if \<not> api_success then report_failure w ''API access failed: '' api_data result
       else Inr (result\<lparr>api_accessible := True, api_info := Some api_data, valid := True\<rparr>)))"

definition validate_key ::
    "world \<Rightarrow> validator \<Rightarrow> string \<Rightarrow> string option \<Rightarrow> exn + validation_result" where
  "validate_key w self key scope =
     (let result = new_result w self key in
      and_then (get_access_token w self key scope) (\<lambda>(token_success, token_data).
        if \<not> token_success then report_failure w ''Token request failed: '' token_data result
        else
          and_then (token_metadata token_data) (\<lambda>info.
            api_phase w self token_data
              (result\<lparr>token_obtained := True, token_info := Some info\<rparr>))))"

section \<open>Loading keys from a file\<close>

text \<open>
  Python's \<^verbatim>\<open>str.isspace\<close> on the characters below 256: tab, line feed, vertical tab,
  form feed, carriage return, the four separators \<open>0x1C\<close> to \<open>0x1F\<close>, space, \<open>0x85\<close>
  and the no-break space.
\<close>

definition is_space :: "char \<Rightarrow> bool" where
  "is_space c = ((of_char c :: nat) \<in> {9, 10, 11, 12, 13, 28, 29, 30, 31, 32, 133, 160})"

definition lstrip :: "string \<Rightarrow> string" where
  "lstrip s = dropWhile is_space s"

definition rstrip :: "string \<Rightarrow> string" where
  "rstrip s = rev (dropWhile is_space (rev s))"

definition strip :: "string \<Rightarrow> string" where
  "strip s = rstrip (lstrip s)"

definition startswith :: "string \<Rightarrow> string \<Rightarrow> bool" where
  "startswith s p = (take (length p) s = p)"

text \<open>
  A file opened in text mode translates \<open>CR LF\<close> and a lone \<open>CR\<close> to \<open>LF\<close>; iterating
  over it yields the lines, each with its \<open>LF\<close>, and a last line without one when the
  text does not end in \<open>LF\<close>.
\<close>

fun universal_newlines :: "string \<Rightarrow> string" where
  "universal_newlines [] = []"
| "universal_newlines [c] = [if c = CHR 0x0D then CHR 0x0A else c]"
| "universal_newlines (c # d # cs) =
     (if c = CHR 0x0D then
        (if d = CHR 0x0A then CHR 0x0A # universal_newlines cs
         else CHR 0x0A # universal_newlines (d # cs))
      else c # universal_newlines (d # cs))"

fun split_lines :: "string \<Rightarrow> string \<Rightarrow> string list" where
  "split_lines cur [] = (if cur = [] then [] else [cur])"
| "split_lines cur (c # cs) =
     (if c = CHR 0x0A then (cur @ [c]) # split_lines [] cs else split_lines (cur @ [c]) cs)"

definition file_lines :: "string \<Rightarrow> string list" where
  "file_lines content = split_lines [] (universal_newlines content)"

text \<open>
  The rest of the machine, as \<^verbatim>\<open>main\<close> sees it: reading a text file (opening it or
  decoding it may raise), writing the results as JSON (\<open>Some e\<close>: the \<^verbatim>\<open>with\<close> block
  raised \<open>e\<close>), and the network and clock during the validation of the \<open>i\<close>-th key.
\<close>

record system =
  read_text :: "string \<Rightarrow> exn + string"
  save_results :: "string \<Rightarrow> validation_result list \<Rightarrow> exn option"
  net :: "nat \<Rightarrow> world"

definition keys_of_lines :: "string list \<Rightarrow> string list" where
  "keys_of_lines ls =
     [strip line. line \<leftarrow> ls, strip line \<noteq> [] \<and> \<not> startswith (strip line) ''#'']"

text \<open>Both handlers (\<^verbatim>\<open>FileNotFoundError\<close> and \<^verbatim>\<open>Exception\<close>) return the empty list.\<close>

definition load_keys_from_file :: "system \<Rightarrow> string \<Rightarrow> string list" where
  "load_keys_from_file sys filename =
     (case read_text sys filename of
        Inl e \<Rightarrow> []
      | Inr content \<Rightarrow> keys_of_lines (file_lines content))"

section \<open>The command line\<close>

record args =
  arg_key :: "string option"
  arg_key_arg :: "string option"
  arg_file :: "string option"
  arg_scope :: "string option"
  arg_url :: string
  arg_output :: "string option"
  arg_verbose :: bool
  arg_skip_ssl_verify :: bool

text \<open>Truth value of an optional string: \<^verbatim>\<open>None\<close> and \<^verbatim>\<open>''\<close> are false.\<close>

definition truthy :: "string option \<Rightarrow> bool" where
  "truthy s = (case s of None \<Rightarrow> False | Some t \<Rightarrow> t \<noteq> [])"

text \<open>
  Source lines 229 to 240: the keys to validate, or \<open>None\<close> where the source calls
  \<^verbatim>\<open>sys.exit(1)\<close>.
\<close>

definition resolve_keys :: "system \<Rightarrow> args \<Rightarrow> string list option" where
  "resolve_keys sys a =
     (if truthy (arg_file a) then
        (case arg_file a of
           None \<Rightarrow> None
         | Some filename \<Rightarrow>
             (let keys_to_validate = load_keys_from_file sys filename
              in if keys_to_validate = [] then None else Some keys_to_validate))
      else
        (let key = (if truthy (arg_key a) then arg_key a else arg_key_arg a)
         in case key of
              None \<Rightarrow> None
            | Some k \<Rightarrow> if k = [] then None else Some [k]))"

text \<open>
  The loop of source lines 254 to 266, from the \<open>i\<close>-th key on. An exception of
  \<^verbatim>\<open>validate_key\<close> is not caught and ends the loop.
\<close>

fun validate_all ::
    "system \<Rightarrow> validator \<Rightarrow> string option \<Rightarrow> nat \<Rightarrow> string list \<Rightarrow> exn + validation_result list" where
  "validate_all sys v scope i [] = Inr []"
| "validate_all sys v scope i (key # keys) =
     and_then (validate_key (net sys i) v key scope) (\<lambda>result.
     and_then (validate_all sys v scope (Suc i) keys) (\<lambda>results.
       Inr (result # results)))"

text \<open>
  What a run of \<^verbatim>\<open>main\<close> leaves behind: the exit status of the process and whether the
  results were written to the output file. An uncaught exception ends the interpreter
  with status 1.
\<close>

record run =
  exit_code :: int
  results_saved :: bool

definition main :: "system \<Rightarrow> args \<Rightarrow> run" where
  "main sys a =
     (case resolve_keys sys a of
        None \<Rightarrow> \<lparr>exit_code = 1, results_saved = False\<rparr>
      | Some keys_to_validate \<Rightarrow>
          (case validate_all sys (init_validator (arg_url a) (arg_skip_ssl_verify a))
                  (arg_scope a) 1 keys_to_validate of
             Inl e \<Rightarrow> \<lparr>exit_code = 1, results_saved = False\<rparr>
           | Inr results \<Rightarrow>
               (let saved = (case arg_output a of
                               None \<Rightarrow> False
                             | Some path \<Rightarrow>
                                 if path = [] then False
                                 else (case save_results sys path results of
                                         None \<Rightarrow> True
                                       | Some e \<Rightarrow> False))
                in if \<not> list_all valid results then \<lparr>exit_code = 1, results_saved = saved\<rparr>
                   else \<lparr>exit_code = 0, results_saved = saved\<rparr>)))"

section \<open>The key file as the specification words it\<close>

text \<open>
  The specification says that blank lines and lines starting with \<open>#\<close> are discarded and
  that a retained key is the line with the surrounding whitespace stripped.
  \<open>keys_as_specified\<close> follows these words: a line is blank when it holds nothing but
  whitespace, and it starts with \<open>#\<close> when its first character is \<open>#\<close>.
\<close>

definition blank_line :: "string \<Rightarrow> bool" where
  "blank_line l = list_all is_space l"

definition keys_as_specified :: "string list \<Rightarrow> string list" where
  "keys_as_specified ls =
     map strip (filter (\<lambda>l. \<not> blank_line l \<and> \<not> startswith l ''#'') ls)"

text \<open>A line whose first character after the leading whitespace is \<open>#\<close>.\<close>

definition comment_line :: "string \<Rightarrow> bool" where
  "comment_line l = (case lstrip l of [] \<Rightarrow> False | c # cs \<Rightarrow> c = CHR ''#'')"

section \<open>Example runs\<close>

text \<open>Concrete responses and environments, used to run the definitions.\<close>

definition example_validator :: validator where
  "example_validator = init_validator ''https://api.lookout.com/'' False"

definition example_token_payload :: "(string \<times> pyval) list" where
  "example_token_payload =
     [(''access_token'', PStr ''tok-1''), (''token_type'', PStr ''Bearer''),
      (''expires_in'', PInt 3600)]"

definition token_granted :: response where
  "token_granted =
     \<lparr>status_code = 200, resp_text = ''{...}'', resp_json = Inr (PDict example_token_payload)\<rparr>"

definition token_denied :: response where
  "token_denied =
     \<lparr>status_code = 401, resp_text = ''Unauthorized'',
      resp_json = Inl (RequestException ''Expecting value'')\<rparr>"

definition token_without_access_token :: response where
  "token_without_access_token =
     \<lparr>status_code = 200, resp_text = ''{\"token_type\": \"Bearer\"}'',
      resp_json = Inr (PDict [(''token_type'', PStr ''Bearer'')])\<rparr>"

definition probe_granted :: response where
  "probe_granted =
     \<lparr>status_code = 200, resp_text = ''{\"count\": 7}'',
      resp_json = Inr (PDict [(''count'', PInt 7)])\<rparr>"

definition probe_denied :: response where
  "probe_denied =
     \<lparr>status_code = 403, resp_text = ''Forbidden'',
      resp_json = Inl (RequestException ''Expecting value'')\<rparr>"

text \<open>
  A probe answered with status 200 and a body that is not JSON: \<^verbatim>\<open>response.json()\<close>
  raises \<^verbatim>\<open>requests.exceptions.JSONDecodeError\<close>, a \<^verbatim>\<open>RequestException\<close>.
\<close>

definition probe_not_json :: response where
  "probe_not_json =
     \<lparr>status_code = 200, resp_text = ''<html>OK</html>'',
      resp_json = Inl (RequestException ''Expecting value: line 1 column 1 (char 0)'')\<rparr>"

definition example_world :: "response \<Rightarrow> response \<Rightarrow> world" where
  "example_world t p =
     \<lparr>requests_post = (\<lambda>rq. Inr t), requests_get = (\<lambda>rq. Inr p),
      datetime_now = ''2024-05-01T12:00:00'', repr_of = (\<lambda>v. ''?'')\<rparr>"

text \<open>The results these environments lead to, by the outcome of the two phases.\<close>

definition expected_start :: "string \<Rightarrow> validation_result" where
  "expected_start key =
     \<lparr>application_key = redact key, timestamp = ''2024-05-01T12:00:00'', valid = False,
      token_obtained = False, api_accessible = False, ssl_verify_skipped = False,
      errors = [], token_info = None, api_info = None\<rparr>"

definition example_token_info :: pyval where
  "example_token_info =
     PDict [(''token_type'', PStr ''Bearer''), (''expires_in'', PInt 3600),
            (''expires_at'', PNone), (''scope'', PStr '''')]"

definition expected_token_denied :: "string \<Rightarrow> validation_result" where
  "expected_token_denied key =
     (expected_start key)\<lparr>errors := [''Token request failed: HTTP 401'']\<rparr>"

definition expected_probe_denied :: "string \<Rightarrow> validation_result" where
  "expected_probe_denied key =
     (expected_start key)
       \<lparr>token_obtained := True, token_info := Some example_token_info,
        errors := [''API access failed: HTTP 403'']\<rparr>"

definition expected_probe_not_json :: "string \<Rightarrow> validation_result" where
  "expected_probe_not_json key =
     (expected_start key)
       \<lparr>token_obtained := True, token_info := Some example_token_info,
        errors := [''API access failed: Network error'']\<rparr>"

definition expected_valid :: "string \<Rightarrow> validation_result" where
  "expected_valid key =
     (expected_start key)
       \<lparr>token_obtained := True, token_info := Some example_token_info,
        api_accessible := True,
        api_info := Some (PDict [(''device_count'', PInt 7), (''api_accessible'', PBool True)]),
        valid := True\<rparr>"

text \<open>
  A key file with a key, an indented comment ended by \<open>CR LF\<close>, an empty line and a key
  between spaces on a last line without line end.
\<close>

definition example_file :: string where
  "example_file =
     ''key-1'' @ [CHR 0x0A] @ ''  # spare'' @ [CHR 0x0D, CHR 0x0A] @ [CHR 0x0A] @ '' key-2 ''"

definition example_args :: args where
  "example_args =
     \<lparr>arg_key = None, arg_key_arg = None, arg_file = Some ''keys.txt'', arg_scope = None,
      arg_url = ''https://api.lookout.com/'', arg_output = Some ''out.json'',
      arg_verbose = False, arg_skip_ssl_verify = False\<rparr>"

text \<open>
  A machine on which \<^verbatim>\<open>keys.txt\<close> is that file, the output file cannot be written, the
  first key passes both phases and the token request of every later key is refused.
\<close>

definition example_system :: system where
  "example_system =
     \<lparr>read_text = (\<lambda>f. if f = ''keys.txt'' then Inr example_file else Inl FileNotFoundError),
      save_results = (\<lambda>f rs. Some (OtherException ''Permission denied'')),
      net = (\<lambda>i. if i = 1 then example_world token_granted probe_granted
                  else example_world token_denied probe_granted)\<rparr>"

text \<open>
  The same machine with a token endpoint that answers every key with status 200 and a
  JSON object without \<open>access_token\<close>.
\<close>

definition raising_system :: system where
  "raising_system =
     example_system\<lparr>net := (\<lambda>i. example_world token_without_access_token probe_granted)\<rparr>"

section \<open>Sequencing and the two HTTP helpers\<close>

declare str_nat.simps [simp del]

lemma and_then_Inr [simp]: "and_then (Inr x) f = f x"
  by (simp add: and_then_def)

lemma and_then_Inl [simp]: "and_then (Inl e) f = Inl e"
  by (simp add: and_then_def)

lemma and_then_InrE:
  assumes "and_then m f = Inr y"
  obtains x where "m = Inr x" and "f x = Inr y"
  using assms by (cases m) simp_all

lemma get_access_token_non200:
  assumes "requests_post w (token_request self key scope) = Inr tr" and "status_code tr \<noteq> 200"
  shows "get_access_token w self key scope = Inr (False, http_error tr)"
  using assms by (simp add: get_access_token_def)

lemma get_access_token_200:
  assumes "requests_post w (token_request self key scope) = Inr tr" and "status_code tr = 200"
    and "resp_json tr = Inr body"
  shows "get_access_token w self key scope = Inr (True, body)"
  using assms by (simp add: get_access_token_def)

lemma test_api_access_non200:
  assumes "requests_get w (probe_request w self tok) = Inr pr" and "status_code pr \<noteq> 200"
  shows "test_api_access w self tok = Inr (False, http_error pr)"
  using assms by (simp add: test_api_access_def)

lemma test_api_access_200:
  assumes "requests_get w (probe_request w self tok) = Inr pr" and "status_code pr = 200"
    and "resp_json pr = Inr (PDict b)"
  shows "test_api_access w self tok =
           Inr (True, PDict [(''device_count'', dict_get b ''count'' (PInt 0)),
                             (''api_accessible'', PBool True)])"
  using assms by (simp add: test_api_access_def)

section \<open>The shape of every returned result\<close>

lemma report_failure_Inr:
  assumes "report_failure w what info res = Inr r"
  shows "\<exists>m. r = res\<lparr>errors := errors res @ [m]\<rparr>"
  using assms unfolding report_failure_def by (auto elim: and_then_InrE)

lemma report_http_error:
  "report_failure w what (http_error r) res =
     Inr (res\<lparr>errors := errors res @ [what @ ''HTTP '' @ str_int (status_code r)]\<rparr>)"
  by (simp add: report_failure_def http_error_def dict_get_def)

lemma token_metadata_dict:
  "token_metadata (PDict d) =
     Inr (PDict [(''token_type'', dict_get d ''token_type'' PNone),
                 (''expires_in'', dict_get d ''expires_in'' PNone),
                 (''expires_at'', dict_get d ''expires_at'' PNone),
                 (''scope'', dict_get d ''scope'' (PStr ''''))])"
  by (simp add: token_metadata_def)

lemma api_phase_cases:
  assumes "api_phase w self td res = Inr r"
  shows "(\<exists>m. r = res\<lparr>errors := errors res @ [m]\<rparr>) \<or>
         (\<exists>ai. r = res\<lparr>api_accessible := True, api_info := Some ai, valid := True\<rparr>)"
proof -
  from assms obtain tok where
    a: "and_then (test_api_access w self tok) (\<lambda>(api_success, api_data).
       if \<not> api_success then report_failure w ''API access failed: '' api_data res
       else Inr (res\<lparr>api_accessible := True, api_info := Some api_data, valid := True\<rparr>)) = Inr r"
    unfolding api_phase_def by (rule and_then_InrE)
  then obtain p where
    b: "(case p of (api_success, api_data) \<Rightarrow>
       if \<not> api_success then report_failure w ''API access failed: '' api_data res
       else Inr (res\<lparr>api_accessible := True, api_info := Some api_data, valid := True\<rparr>)) = Inr r"
    by (rule and_then_InrE)
  obtain ok d where "p = (ok, d)" by (cases p)
  with b show ?thesis by (cases ok) (auto dest: report_failure_Inr)
qed

text \<open>
  Whenever \<^verbatim>\<open>validate_key\<close> returns, the result is the initial one with one of three
  updates: an error of the token phase, the token metadata and an error of the API
  phase, or the metadata of both phases and \<open>valid\<close>.
\<close>

lemma validate_key_cases:
  assumes "validate_key w self key scope = Inr r"
  shows "(\<exists>m. r = (new_result w self key)\<lparr>errors := [m]\<rparr>) \<or>
         (\<exists>ti m. r = (new_result w self key)
                      \<lparr>token_obtained := True, token_info := Some ti, errors := [m]\<rparr>) \<or>
         (\<exists>ti ai. r = (new_result w self key)
                       \<lparr>token_obtained := True, token_info := Some ti,
                        api_accessible := True, api_info := Some ai, valid := True\<rparr>)"
proof -
  let ?res = "new_result w self key"
  from assms obtain p where
    b: "(case p of (token_success, token_data) \<Rightarrow>
        if \<not> token_success then report_failure w ''Token request failed: '' token_data ?res
        else
          and_then (token_metadata token_data) (\<lambda>info.
            api_phase w self token_data
              (?res\<lparr>token_obtained := True, token_info := Some info\<rparr>))) = Inr r"
    unfolding validate_key_def Let_def by (rule and_then_InrE)
  obtain ok td where p: "p = (ok, td)" by (cases p)
  have e: "errors ?res = []" by (simp add: new_result_def)
  show ?thesis
  proof (cases ok)
    case False
    with b p have "report_failure w ''Token request failed: '' td ?res = Inr r" by simp
    from report_failure_Inr[OF this] e show ?thesis by auto
  next
    case True
    with b p have "and_then (token_metadata td) (\<lambda>info.
            api_phase w self td (?res\<lparr>token_obtained := True, token_info := Some info\<rparr>)) = Inr r"
      by simp
    then obtain ti where
      "api_phase w self td (?res\<lparr>token_obtained := True, token_info := Some ti\<rparr>) = Inr r"
      by (rule and_then_InrE)
    from api_phase_cases[OF this] e show ?thesis by auto
  qed
qed

lemma network_error_Inr:
  "network_error e = Inr p \<Longrightarrow>
     \<exists>m. e = RequestException m \<and>
         p = (False, PDict [(''error'', PStr ''Network error''), (''message'', PStr m)])"
  by (cases e) auto

lemma get_access_token_True:
  assumes "get_access_token w self key scope = Inr (True, td)"
  shows "\<exists>tr. requests_post w (token_request self key scope) = Inr tr \<and>
              status_code tr = 200 \<and> resp_json tr = Inr td"
proof (cases "requests_post w (token_request self key scope)")
  case (Inl e)
  with assms have "network_error e = Inr (True, td)"
    by (simp add: get_access_token_def)
  from network_error_Inr [OF this] show ?thesis by simp
next
  case (Inr tr)
  show ?thesis
  proof (cases "status_code tr = 200")
    case False
    with Inr assms show ?thesis
      by (simp add: get_access_token_def)
  next
    case True
    show ?thesis
    proof (cases "resp_json tr")
      case (Inl e)
      with True Inr assms have "network_error e = Inr (True, td)"
        by (simp add: get_access_token_def)
      from network_error_Inr [OF this] show ?thesis by simp
    next
      case body: (Inr body)
      with True Inr assms show ?thesis
        by (simp add: get_access_token_def)
    qed
  qed
qed

lemma py_getitem_Inr:
  "py_getitem v k = Inr x \<Longrightarrow> \<exists>d. v = PDict d \<and> map_of d k = Some x"
  by (cases v) (auto split: option.splits)

lemma api_phase_needs_access_token:
  assumes "api_phase w self td res = Inr r"
  shows "\<exists>d tok. td = PDict d \<and> map_of d ''access_token'' = Some tok"
proof -
  from assms obtain tok where "py_getitem td ''access_token'' = Inr tok"
    unfolding api_phase_def by (rule and_then_InrE)
  from py_getitem_Inr [OF this] show ?thesis by blast
qed

text \<open>
  A result with \<open>token_obtained\<close> set is returned only when the token request was answered
  with status 200 and a JSON object that has an \<open>access_token\<close>: these are the runs in
  which a probe request is sent.
\<close>

lemma token_obtained_only_with_access_token:
  assumes "validate_key w self key scope = Inr r" and "token_obtained r"
  shows "\<exists>tr d tok. requests_post w (token_request self key scope) = Inr tr \<and>
           status_code tr = 200 \<and> resp_json tr = Inr (PDict d) \<and>
           map_of d ''access_token'' = Some tok"
proof -
  let ?res = "new_result w self key"
  from assms(1) obtain p where g: "get_access_token w self key scope = Inr p" and
    b: "(case p of (token_success, token_data) \<Rightarrow>
        if \<not> token_success then report_failure w ''Token request failed: '' token_data ?res
        else
          and_then (token_metadata token_data) (\<lambda>info.
            api_phase w self token_data
              (?res\<lparr>token_obtained := True, token_info := Some info\<rparr>))) = Inr r"
    unfolding validate_key_def Let_def by (rule and_then_InrE)
  obtain ok td where p: "p = (ok, td)" by (cases p)
  show ?thesis
  proof (cases ok)
    case False
    with b p have "report_failure w ''Token request failed: '' td ?res = Inr r" by simp
    from report_failure_Inr [OF this] have "\<not> token_obtained r"
      by (auto simp: new_result_def)
    with assms(2) show ?thesis by simp
  next
    case True
    with b p have "and_then (token_metadata td) (\<lambda>info.
            api_phase w self td (?res\<lparr>token_obtained := True, token_info := Some info\<rparr>)) = Inr r"
      by simp
    then obtain ti where
      "api_phase w self td (?res\<lparr>token_obtained := True, token_info := Some ti\<rparr>) = Inr r"
      by (rule and_then_InrE)
    from api_phase_needs_access_token [OF this] obtain d tok where
      d: "td = PDict d" "map_of d ''access_token'' = Some tok"
      by blast
    from g p True have "get_access_token w self key scope = Inr (True, td)" by simp
    from get_access_token_True [OF this] d show ?thesis by auto
  qed
qed

section \<open>The result in each scenario\<close>

lemma validate_key_token_http_error:
  assumes "requests_post w (token_request self key scope) = Inr tr" and "status_code tr \<noteq> 200"
  shows "validate_key w self key scope =
           Inr ((new_result w self key)
                  \<lparr>errors := [''Token request failed: HTTP '' @ str_int (status_code tr)]\<rparr>)"
  using get_access_token_non200[OF assms]
  by (simp add: validate_key_def report_http_error new_result_def)

lemma validate_key_token_200:
  assumes "requests_post w (token_request self key scope) = Inr tr" and "status_code tr = 200"
    and "resp_json tr = Inr (PDict d)"
  shows "validate_key w self key scope =
           api_phase w self (PDict d)
             ((new_result w self key)
                \<lparr>token_obtained := True,
                 token_info := Some (PDict [(''token_type'', dict_get d ''token_type'' PNone),
                                            (''expires_in'', dict_get d ''expires_in'' PNone),
                                            (''expires_at'', dict_get d ''expires_at'' PNone),
                                            (''scope'', dict_get d ''scope'' (PStr ''''))])\<rparr>)"
  using get_access_token_200[OF assms]
  by (simp add: validate_key_def token_metadata_dict)

lemma api_phase_no_access_token:
  assumes "map_of d ''access_token'' = None"
  shows "api_phase w self (PDict d) res = Inl (KeyError ''access_token'')"
  using assms by (simp add: api_phase_def)

lemma api_phase_http_error:
  assumes "map_of d ''access_token'' = Some tok"
    and "requests_get w (probe_request w self tok) = Inr pr" and "status_code pr \<noteq> 200"
  shows "api_phase w self (PDict d) res =
           Inr (res\<lparr>errors := errors res @
                    [''API access failed: HTTP '' @ str_int (status_code pr)]\<rparr>)"
  using assms(1) test_api_access_non200[OF assms(2,3)]
  by (simp add: api_phase_def report_http_error)

lemma api_phase_200:
  assumes "map_of d ''access_token'' = Some tok"
    and "requests_get w (probe_request w self tok) = Inr pr" and "status_code pr = 200"
    and "resp_json pr = Inr (PDict b)"
  shows "api_phase w self (PDict d) res =
           Inr (res\<lparr>api_accessible := True,
                    api_info := Some (PDict [(''device_count'', dict_get b ''count'' (PInt 0)),
                                             (''api_accessible'', PBool True)]),
                    valid := True\<rparr>)"
  using assms(1) test_api_access_200[OF assms(2,3,4)]
  by (simp add: api_phase_def)

section \<open>The example runs, evaluated\<close>

lemmas eval_defs =
  validate_key_def api_phase_def token_metadata_def report_failure_def new_result_def
  get_access_token_def test_api_access_def http_error_def init_validator_def
  example_world_def example_validator_def example_token_payload_def example_token_info_def
  token_granted_def token_denied_def token_without_access_token_def
  probe_granted_def probe_denied_def probe_not_json_def
  expected_start_def expected_token_denied_def expected_probe_denied_def
  expected_probe_not_json_def expected_valid_def
  dict_get_def str_int_def str_nat.simps digit_char_def

lemma run_valid:
  "validate_key (example_world token_granted probe_granted) example_validator key None =
     Inr (expected_valid key)"
  by (simp add: eval_defs)

lemma run_token_denied:
  "validate_key (example_world token_denied probe_granted) example_validator key None =
     Inr (expected_token_denied key)"
  by (simp add: eval_defs)

lemma run_probe_denied:
  "validate_key (example_world token_granted probe_denied) example_validator key None =
     Inr (expected_probe_denied key)"
  by (simp add: eval_defs)

lemma run_probe_not_json:
  "validate_key (example_world token_granted probe_not_json) example_validator key None =
     Inr (expected_probe_not_json key)"
  by (simp add: eval_defs)

lemma example_post:
  "requests_post (example_world t p) rq = Inr t"
  by (simp add: example_world_def)

lemma example_get:
  "requests_get (example_world t p) rq = Inr p"
  by (simp add: example_world_def)

lemma example_access_token:
  "map_of example_token_payload ''access_token'' = Some (PStr ''tok-1'')"
  by (simp add: example_token_payload_def)

section \<open>Claims about the validation of one key\<close>

text \<open>
  Claim C1. For every key and every outcome of the two phases, the result that
  \<^verbatim>\<open>validate_key\<close> returns has \<open>valid\<close> true exactly when \<open>token_obtained\<close> and
  \<open>api_accessible\<close> are both true, and an empty \<open>errors\<close> list exactly when \<open>valid\<close> is
  true.
\<close>

theorem validate_key_invariant:
  assumes "validate_key w self key scope = Inr r"
  shows "valid r = (token_obtained r \<and> api_accessible r) \<and> (errors r = [] \<longleftrightarrow> valid r)"
  using validate_key_cases[OF assms] by (auto simp: new_result_def)

theorem validate_key_invariant_witness:
  "validate_key (example_world token_granted probe_denied) example_validator ''key-123'' None
     = Inr (expected_probe_denied ''key-123'') \<and>
   valid (expected_probe_denied ''key-123'')
     = (token_obtained (expected_probe_denied ''key-123'') \<and>
        api_accessible (expected_probe_denied ''key-123'')) \<and>
   (errors (expected_probe_denied ''key-123'') = [] \<longleftrightarrow> valid (expected_probe_denied ''key-123''))"
  by (rule conjI [OF run_probe_denied validate_key_invariant [OF run_probe_denied]])

text \<open>
  Claim C2. The claim: every expected field of the token payload is read with a default,
  and a 200 token response whose body lacks \<open>access_token\<close> does not make
  \<^verbatim>\<open>validate_key\<close> fail outside the \<open>errors\<close> list of the returned result. The code
  reads \<open>access_token\<close> by subscript (source line 169): on a 200 response whose JSON
  object has no \<open>access_token\<close>, \<^verbatim>\<open>validate_key\<close> raises \<^verbatim>\<open>KeyError\<close> and returns no
  result at all.
\<close>

theorem missing_access_token_raises:
  assumes "requests_post w (token_request self key scope) = Inr tr" and "status_code tr = 200"
    and "resp_json tr = Inr (PDict d)" and "map_of d ''access_token'' = None"
  shows "validate_key w self key scope = Inl (KeyError ''access_token'')"
  by (simp add: validate_key_token_200[OF assms(1,2,3)] api_phase_no_access_token[OF assms(4)])

theorem missing_access_token_raises_witness:
  "validate_key (example_world token_without_access_token probe_granted) example_validator
     ''key-123'' None = Inl (KeyError ''access_token'')"
proof (rule missing_access_token_raises)
  show "requests_post (example_world token_without_access_token probe_granted)
          (token_request example_validator ''key-123'' None) = Inr token_without_access_token"
    by (rule example_post)
  show "status_code token_without_access_token = 200"
    by (simp add: token_without_access_token_def)
  show "resp_json token_without_access_token = Inr (PDict [(''token_type'', PStr ''Bearer'')])"
    by (simp add: token_without_access_token_def)
  show "map_of [(''token_type'', PStr ''Bearer'')] ''access_token'' = None"
    by simp
qed

text \<open>
  Claim C3. If the token request returns an HTTP status other than 200, the result has
  \<open>token_obtained\<close> and \<open>api_accessible\<close> false, exactly one entry in \<open>errors\<close>, which
  names the HTTP status, and no \<open>token_info\<close>.
\<close>

theorem token_http_failure:
  assumes "requests_post w (token_request self key scope) = Inr tr" and "status_code tr \<noteq> 200"
  shows "\<exists>r. validate_key w self key scope = Inr r \<and>
             \<not> token_obtained r \<and> \<not> api_accessible r \<and> \<not> valid r \<and>
             errors r = [''Token request failed: HTTP '' @ str_int (status_code tr)] \<and>
             token_info r = None \<and> api_info r = None"
  by (simp add: validate_key_token_http_error[OF assms] new_result_def)

theorem token_http_failure_witness:
  "requests_post (example_world token_denied probe_granted)
     (token_request example_validator ''key-123'' None) = Inr token_denied \<and>
   status_code token_denied \<noteq> 200 \<and>
   (\<exists>r. validate_key (example_world token_denied probe_granted) example_validator
           ''key-123'' None = Inr r \<and>
        \<not> token_obtained r \<and> \<not> api_accessible r \<and> \<not> valid r \<and>
        errors r = [''Token request failed: HTTP 401''] \<and>
        token_info r = None \<and> api_info r = None)"
proof -
  have p: "requests_post (example_world token_denied probe_granted)
     (token_request example_validator ''key-123'' None) = Inr token_denied"
    by (rule example_post)
  have s: "status_code token_denied \<noteq> 200"
    by (simp add: token_denied_def)
  have e: "str_int (status_code token_denied) = ''401''"
    by (simp add: token_denied_def str_int_def str_nat.simps digit_char_def)
  from token_http_failure [OF p s] p s show ?thesis
    by (simp add: e)
qed

text \<open>
  Claim C4. If the token request returns 200 and the probe request, sent with the
  \<open>access_token\<close> of the token payload, returns a status other than 200, the result has
  \<open>token_obtained\<close> true, a \<open>token_info\<close> holding \<open>token_type\<close>, \<open>expires_in\<close> and
  \<open>expires_at\<close> (each \<^verbatim>\<open>None\<close> when the payload lacks it) and \<open>scope\<close> (the empty string
  when the payload lacks it), \<open>api_accessible\<close> false, and exactly one entry in \<open>errors\<close>,
  which names the status of the probe.
\<close>

theorem probe_http_failure:
  assumes "requests_post w (token_request self key scope) = Inr tr" and "status_code tr = 200"
    and "resp_json tr = Inr (PDict d)" and "map_of d ''access_token'' = Some tok"
    and "requests_get w (probe_request w self tok) = Inr pr" and "status_code pr \<noteq> 200"
  shows "\<exists>r. validate_key w self key scope = Inr r \<and>
             token_obtained r \<and>
             token_info r = Some (PDict [(''token_type'', dict_get d ''token_type'' PNone),
                                         (''expires_in'', dict_get d ''expires_in'' PNone),
                                         (''expires_at'', dict_get d ''expires_at'' PNone),
                                         (''scope'', dict_get d ''scope'' (PStr ''''))]) \<and>
             \<not> api_accessible r \<and> \<not> valid r \<and>
             errors r = [''API access failed: HTTP '' @ str_int (status_code pr)] \<and>
             api_info r = None"
  by (simp add: validate_key_token_200[OF assms(1,2,3)] api_phase_http_error[OF assms(4,5,6)]
        new_result_def)

theorem probe_http_failure_witness:
  "requests_post (example_world token_granted probe_denied)
     (token_request example_validator ''key-123'' None) = Inr token_granted \<and>
   status_code token_granted = 200 \<and>
   resp_json token_granted = Inr (PDict example_token_payload) \<and>
   map_of example_token_payload ''access_token'' = Some (PStr ''tok-1'') \<and>
   requests_get (example_world token_granted probe_denied)
     (probe_request (example_world token_granted probe_denied) example_validator (PStr ''tok-1''))
     = Inr probe_denied \<and>
   status_code probe_denied \<noteq> 200 \<and>
   (\<exists>r. validate_key (example_world token_granted probe_denied) example_validator
           ''key-123'' None = Inr r \<and>
        token_obtained r \<and>
        token_info r = Some (PDict [(''token_type'', PStr ''Bearer''), (''expires_in'', PInt 3600),
                                    (''expires_at'', PNone), (''scope'', PStr '''')]) \<and>
        \<not> api_accessible r \<and> \<not> valid r \<and>
        errors r = [''API access failed: HTTP 403''] \<and>
        api_info r = None)"
proof -
  have p: "requests_post (example_world token_granted probe_denied)
     (token_request example_validator ''key-123'' None) = Inr token_granted"
    by (rule example_post)
  have s: "status_code token_granted = 200"
    by (simp add: token_granted_def)
  have j: "resp_json token_granted = Inr (PDict example_token_payload)"
    by (simp add: token_granted_def)
  have g: "requests_get (example_world token_granted probe_denied)
     (probe_request (example_world token_granted probe_denied) example_validator (PStr ''tok-1''))
     = Inr probe_denied"
    by (rule example_get)
  have s': "status_code probe_denied \<noteq> 200"
    by (simp add: probe_denied_def)
  have e: "str_int (status_code probe_denied) = ''403''"
    by (simp add: probe_denied_def str_int_def str_nat.simps digit_char_def)
  have d: "dict_get example_token_payload ''token_type'' PNone = PStr ''Bearer''"
    "dict_get example_token_payload ''expires_in'' PNone = PInt 3600"
    "dict_get example_token_payload ''expires_at'' PNone = PNone"
    "dict_get example_token_payload ''scope'' (PStr '''') = PStr ''''"
    by (simp_all add: dict_get_def example_token_payload_def)
  from probe_http_failure [OF p s j example_access_token g s'] p s j example_access_token g s'
  show ?thesis
    by (simp add: e d)
qed

text \<open>
  Claim C5, as stated: if the token request and the probe request both return 200, the
  result has \<open>valid\<close> true and its device count is the \<open>count\<close> field of the probe body,
  0 when the field is absent. It fails when the body of the probe is not JSON: both
  requests return 200, and the result is not valid and carries the error of the probe.
\<close>

theorem both_200_probe_not_json_invalid:
  "requests_post (example_world token_granted probe_not_json)
     (token_request example_validator ''key-123'' None) = Inr token_granted \<and>
   status_code token_granted = 200 \<and>
   requests_get (example_world token_granted probe_not_json)
     (probe_request (example_world token_granted probe_not_json) example_validator
        (PStr ''tok-1'')) = Inr probe_not_json \<and>
   status_code probe_not_json = 200 \<and>
   validate_key (example_world token_granted probe_not_json) example_validator ''key-123'' None
     = Inr (expected_probe_not_json ''key-123'') \<and>
   \<not> valid (expected_probe_not_json ''key-123'') \<and>
   api_info (expected_probe_not_json ''key-123'') = None \<and>
   errors (expected_probe_not_json ''key-123'') = [''API access failed: Network error'']"
proof -
  have "status_code token_granted = 200"
    by (simp add: token_granted_def)
  moreover have "status_code probe_not_json = 200"
    by (simp add: probe_not_json_def)
  moreover have "\<not> valid (expected_probe_not_json ''key-123'')"
    and "api_info (expected_probe_not_json ''key-123'') = None"
    and "errors (expected_probe_not_json ''key-123'') = [''API access failed: Network error'']"
    by (simp_all add: expected_probe_not_json_def expected_start_def)
  ultimately show ?thesis
    by (simp add: example_post example_get run_probe_not_json)
qed

text \<open>
  Claim C5, amended: if both requests return 200 and the body of the probe parses as a
  JSON object, the result has \<open>valid\<close> true, and the \<open>device_count\<close> of its \<open>api_info\<close>
  is the \<open>count\<close> field of that object, 0 when the field is absent.
\<close>

theorem both_succeed:
  assumes "requests_post w (token_request self key scope) = Inr tr" and "status_code tr = 200"
    and "resp_json tr = Inr (PDict d)" and "map_of d ''access_token'' = Some tok"
    and "requests_get w (probe_request w self tok) = Inr pr" and "status_code pr = 200"
    and "resp_json pr = Inr (PDict b)"
  shows "\<exists>r. validate_key w self key scope = Inr r \<and>
             valid r \<and> token_obtained r \<and> api_accessible r \<and> errors r = [] \<and>
             api_info r = Some (PDict [(''device_count'', dict_get b ''count'' (PInt 0)),
                                       (''api_accessible'', PBool True)])"
  by (simp add: validate_key_token_200[OF assms(1,2,3)] api_phase_200[OF assms(4,5,6,7)]
        new_result_def)

theorem both_succeed_witness:
  "requests_post (example_world token_granted probe_granted)
     (token_request example_validator ''key-123'' None) = Inr token_granted \<and>
   status_code token_granted = 200 \<and>
   resp_json token_granted = Inr (PDict example_token_payload) \<and>
   map_of example_token_payload ''access_token'' = Some (PStr ''tok-1'') \<and>
   requests_get (example_world token_granted probe_granted)
     (probe_request (example_world token_granted probe_granted) example_validator (PStr ''tok-1''))
     = Inr probe_granted \<and>
   status_code probe_granted = 200 \<and>
   resp_json probe_granted = Inr (PDict [(''count'', PInt 7)]) \<and>
   (\<exists>r. validate_key (example_world token_granted probe_granted) example_validator
           ''key-123'' None = Inr r \<and>
        valid r \<and> token_obtained r \<and> api_accessible r \<and> errors r = [] \<and>
        api_info r = Some (PDict [(''device_count'', PInt 7), (''api_accessible'', PBool True)]))"
proof -
  have p: "requests_post (example_world token_granted probe_granted)
     (token_request example_validator ''key-123'' None) = Inr token_granted"
    by (rule example_post)
  have s: "status_code token_granted = 200"
    by (simp add: token_granted_def)
  have j: "resp_json token_granted = Inr (PDict example_token_payload)"
    by (simp add: token_granted_def)
  have g: "requests_get (example_world token_granted probe_granted)
     (probe_request (example_world token_granted probe_granted) example_validator (PStr ''tok-1''))
     = Inr probe_granted"
    by (rule example_get)
  have s': "status_code probe_granted = 200"
    by (simp add: probe_granted_def)
  have j': "resp_json probe_granted = Inr (PDict [(''count'', PInt 7)])"
    by (simp add: probe_granted_def)
  have d: "dict_get [(''count'', PInt 7)] ''count'' (PInt 0) = PInt 7"
    by (simp add: dict_get_def)
  from both_succeed [OF p s j example_access_token g s' j'] p s j example_access_token g s' j'
  show ?thesis
    by (simp add: d)
qed

text \<open>
  Claim C6. The redacted identifier of the result is the key itself when the key has at
  most 20 characters, and its first 20 characters followed by \<open>...\<close> when it has more.
\<close>

theorem redacted_key:
  assumes "validate_key w self key scope = Inr r"
  shows "application_key r = (if length key \<le> 20 then key else take 20 key @ ''...'')"
  using validate_key_cases[OF assms] by (auto simp: new_result_def redact_def)

theorem redacted_key_witness:
  "validate_key (example_world token_granted probe_granted) example_validator
     ''01234567890123456789'' None = Inr (expected_valid ''01234567890123456789'') \<and>
   application_key (expected_valid ''01234567890123456789'') = ''01234567890123456789'' \<and>
   validate_key (example_world token_denied probe_granted) example_validator
     ''01234567890123456789X'' None = Inr (expected_token_denied ''01234567890123456789X'') \<and>
   application_key (expected_token_denied ''01234567890123456789X'')
     = ''01234567890123456789...''"
proof -
  have a: "application_key (expected_valid ''01234567890123456789'') = ''01234567890123456789''"
    using redacted_key [OF run_valid [of "''01234567890123456789''"]] by simp
  have b: "application_key (expected_token_denied ''01234567890123456789X'')
             = ''01234567890123456789...''"
    using redacted_key [OF run_token_denied [of "''01234567890123456789X''"]] by simp
  from a b show ?thesis
    by (simp add: run_valid run_token_denied)
qed

text \<open>
  Claim C9. In every result that \<^verbatim>\<open>validate_key\<close> returns, \<open>api_accessible\<close> true implies
  \<open>token_obtained\<close> true.
\<close>

theorem api_accessible_needs_token:
  assumes "validate_key w self key scope = Inr r" and "api_accessible r"
  shows "token_obtained r"
  using validate_key_cases[OF assms(1)] assms(2) by (auto simp: new_result_def)

theorem api_accessible_needs_token_witness:
  "validate_key (example_world token_granted probe_granted) example_validator ''key-123'' None
     = Inr (expected_valid ''key-123'') \<and>
   api_accessible (expected_valid ''key-123'') \<and> token_obtained (expected_valid ''key-123'')"
proof -
  have a: "api_accessible (expected_valid ''key-123'')"
    by (simp add: expected_valid_def)
  from api_accessible_needs_token [OF run_valid a] a show ?thesis
    by (simp add: run_valid)
qed

text \<open>
  Claim C10. Every result that \<^verbatim>\<open>validate_key\<close> returns has at most one entry in
  \<open>errors\<close>.
\<close>

theorem at_most_one_error:
  assumes "validate_key w self key scope = Inr r"
  shows "length (errors r) \<le> 1"
  using validate_key_cases[OF assms] by (auto simp: new_result_def)

theorem at_most_one_error_witness:
  "validate_key (example_world token_denied probe_granted) example_validator ''key-123'' None
     = Inr (expected_token_denied ''key-123'') \<and>
   length (errors (expected_token_denied ''key-123'')) \<le> 1"
  by (rule conjI [OF run_token_denied at_most_one_error [OF run_token_denied]])


section \<open>Lines, stripping and comments\<close>

lemma split_lines_concat: "concat (split_lines cur s) = cur @ s"
  by (induction s arbitrary: cur) auto

text \<open>The lines of a file, put together again, are its text after newline translation.\<close>

lemma file_lines_concat: "concat (file_lines content) = universal_newlines content"
  by (simp add: file_lines_def split_lines_concat)

lemma rstrip_prefix: "\<exists>t. s = rstrip s @ t"
proof -
  have "s = rev (dropWhile is_space (rev s)) @ rev (takeWhile is_space (rev s))"
    by (metis rev_append rev_rev_ident takeWhile_dropWhile_id)
  then have "s = rstrip s @ rev (takeWhile is_space (rev s))"
    by (simp add: rstrip_def)
  then show ?thesis ..
qed

lemma rstrip_Nil_iff: "rstrip s = [] \<longleftrightarrow> list_all is_space s"
  by (auto simp: rstrip_def list_all_iff)

lemma lstrip_Nil_iff: "lstrip s = [] \<longleftrightarrow> list_all is_space s"
  by (auto simp: lstrip_def list_all_iff)

lemma lstrip_all_space: "list_all is_space (lstrip s) \<longleftrightarrow> list_all is_space s"
proof
  assume a: "list_all is_space (lstrip s)"
  have "lstrip s = []"
  proof (cases "lstrip s")
    case (Cons x xs)
    then have "\<not> is_space x"
      using hd_dropWhile [of is_space s] by (auto simp: lstrip_def)
    moreover have "is_space x"
      using a Cons by simp
    ultimately show ?thesis by simp
  qed simp
  then show "list_all is_space s"
    by (simp add: lstrip_Nil_iff)
next
  assume "list_all is_space s"
  then show "list_all is_space (lstrip s)"
    by (auto simp: lstrip_def list_all_iff dest: set_dropWhileD)
qed

lemma strip_Nil_iff: "strip l = [] \<longleftrightarrow> blank_line l"
  by (simp add: strip_def rstrip_Nil_iff lstrip_all_space blank_line_def)

lemma startswith_hash:
  "startswith s ''#'' \<longleftrightarrow> (case s of [] \<Rightarrow> False | c # cs \<Rightarrow> c = CHR ''#'')"
  by (cases s) (auto simp: startswith_def)

lemma strip_comment:
  assumes "strip l \<noteq> []"
  shows "startswith (strip l) ''#'' \<longleftrightarrow> comment_line l"
proof -
  obtain t where t: "lstrip l = strip l @ t"
    using rstrip_prefix [of "lstrip l"] by (auto simp: strip_def)
  from assms obtain c cs where c: "strip l = c # cs"
    by (cases "strip l") auto
  with t have "lstrip l = c # (cs @ t)"
    by simp
  with c show ?thesis
    by (simp add: startswith_hash comment_line_def)
qed

lemma keys_of_lines_filter:
  "keys_of_lines ls = map strip (filter (\<lambda>l. \<not> blank_line l \<and> \<not> comment_line l) ls)"
proof (induction ls)
  case Nil
  show ?case by (simp add: keys_of_lines_def)
next
  case (Cons l ls)
  have "(strip l \<noteq> [] \<and> \<not> startswith (strip l) ''#'') = (\<not> blank_line l \<and> \<not> comment_line l)"
    using strip_comment [of l] strip_Nil_iff [of l] by auto
  with Cons show ?case
    by (simp add: keys_of_lines_def)
qed

lemmas file_defs =
  load_keys_from_file_def example_system_def example_file_def file_lines_def
  keys_of_lines_def strip_def lstrip_def rstrip_def startswith_def is_space_def
  keys_as_specified_def blank_line_def comment_line_def

lemma example_read: "read_text example_system ''keys.txt'' = Inr example_file"
  by (simp add: example_system_def)

lemma example_lines:
  "file_lines example_file =
     [''key-1'' @ [CHR 0x0A], ''  # spare'' @ [CHR 0x0A], [CHR 0x0A], '' key-2 '']"
  by (simp add: example_file_def file_lines_def)

lemma run_load: "load_keys_from_file example_system ''keys.txt'' = [''key-1'', ''key-2'']"
  by (simp add: file_defs)

section \<open>Claims about the key file and the exit status\<close>

text \<open>
  Claim C8, as stated: the keys loaded from a file are its lines in order, without the
  blank lines and the lines starting with \<open>#\<close>, each stripped of surrounding whitespace.
  It fails on an indented comment: the line does not start with \<open>#\<close>, so the claim keeps
  it (stripped), and the code discards it.
\<close>

theorem indented_comment_discarded:
  "read_text example_system ''keys.txt'' = Inr example_file \<and>
   load_keys_from_file example_system ''keys.txt'' = [''key-1'', ''key-2''] \<and>
   keys_as_specified (file_lines example_file) = [''key-1'', ''# spare'', ''key-2'']"
  by (simp add: file_defs)

text \<open>
  Claim C8, amended: the keys loaded from a file are its lines in order, without the
  blank lines and the lines whose first character after the leading whitespace is \<open>#\<close>,
  each stripped of surrounding whitespace. (A file that cannot be read gives no keys.)
\<close>

theorem load_keys_from_file_lines:
  "load_keys_from_file sys filename =
     (case read_text sys filename of
        Inl e \<Rightarrow> []
      | Inr content \<Rightarrow>
          map strip (filter (\<lambda>l. \<not> blank_line l \<and> \<not> comment_line l) (file_lines content)))"
  by (simp add: load_keys_from_file_def keys_of_lines_filter split: sum.splits)

theorem load_keys_from_file_lines_witness:
  "read_text example_system ''keys.txt'' = Inr example_file \<and>
   file_lines example_file =
     [''key-1'' @ [CHR 0x0A], ''  # spare'' @ [CHR 0x0A], [CHR 0x0A], '' key-2 ''] \<and>
   load_keys_from_file example_system ''keys.txt'' = [''key-1'', ''key-2'']"
proof -
  have "load_keys_from_file example_system ''keys.txt'' =
          map strip (filter (\<lambda>l. \<not> blank_line l \<and> \<not> comment_line l) (file_lines example_file))"
    using load_keys_from_file_lines [of example_system "''keys.txt''"]
    by (simp add: example_read)
  also have "\<dots> = [''key-1'', ''key-2'']"
    by (simp add: example_lines blank_line_def comment_line_def strip_def lstrip_def rstrip_def
          is_space_def)
  finally show ?thesis
    by (simp add: example_read example_lines)
qed

section \<open>The run of main\<close>

lemma load_keys_missing_file:
  "read_text sys filename = Inl e \<Longrightarrow> load_keys_from_file sys filename = []"
  by (simp add: load_keys_from_file_def)

lemma resolve_keys_save [simp]:
  "resolve_keys (sys\<lparr>save_results := s\<rparr>) a = resolve_keys sys a"
  by (simp add: resolve_keys_def load_keys_from_file_def split: option.splits)

lemma validate_all_save [simp]:
  "validate_all (sys\<lparr>save_results := s\<rparr>) v scope i keys = validate_all sys v scope i keys"
  by (induction keys arbitrary: i) simp_all

lemma main_no_keys:
  "resolve_keys sys a = None \<Longrightarrow> exit_code (main sys a) = 1"
  by (simp add: main_def)

lemma main_completed:
  "resolve_keys sys a = Some keys \<Longrightarrow>
   validate_all sys (init_validator (arg_url a) (arg_skip_ssl_verify a)) (arg_scope a) 1 keys
     = Inr results \<Longrightarrow>
   exit_code (main sys a) = (if list_all valid results then 0 else 1)"
  by (simp add: main_def Let_def)

lemma main_exit_code_save:
  "exit_code (main (sys\<lparr>save_results := s\<rparr>) a) = exit_code (main sys a)"
  by (simp add: main_def Let_def split: option.splits sum.splits)

lemma resolve_keys_empty_file:
  "arg_file a = Some filename \<Longrightarrow> filename \<noteq> [] \<Longrightarrow>
   load_keys_from_file sys filename = [] \<Longrightarrow> resolve_keys sys a = None"
  by (simp add: resolve_keys_def truthy_def)

lemma resolve_keys_no_key:
  "\<not> truthy (arg_file a) \<Longrightarrow> \<not> truthy (arg_key a) \<Longrightarrow> \<not> truthy (arg_key_arg a) \<Longrightarrow>
   resolve_keys sys a = None"
  by (auto simp: resolve_keys_def truthy_def split: option.splits)

lemma run_resolve: "resolve_keys example_system example_args = Some [''key-1'', ''key-2'']"
  by (simp add: resolve_keys_def example_args_def truthy_def run_load)

lemma run_validate_all:
  "validate_all example_system
     (init_validator (arg_url example_args) (arg_skip_ssl_verify example_args))
     (arg_scope example_args) 1 [''key-1'', ''key-2'']
   = Inr [expected_valid ''key-1'', expected_token_denied ''key-2'']"
proof -
  have v: "init_validator (arg_url example_args) (arg_skip_ssl_verify example_args)
             = example_validator"
    by (simp add: example_args_def example_validator_def)
  have s: "arg_scope example_args = None"
    by (simp add: example_args_def)
  have n: "net example_system (Suc 0) = example_world token_granted probe_granted"
    "net example_system (Suc (Suc 0)) = example_world token_denied probe_granted"
    by (simp_all add: example_system_def)
  show ?thesis
    by (simp add: v s n run_valid run_token_denied)
qed

lemma main_raised:
  "resolve_keys sys a = Some keys \<Longrightarrow>
   validate_all sys (init_validator (arg_url a) (arg_skip_ssl_verify a)) (arg_scope a) 1 keys
     = Inl e \<Longrightarrow>
   exit_code (main sys a) = 1"
  by (simp add: main_def)

lemma main_exit_zero_iff:
  "exit_code (main sys a) = 0 \<longleftrightarrow>
     (\<exists>keys results.
        resolve_keys sys a = Some keys \<and>
        validate_all sys (init_validator (arg_url a) (arg_skip_ssl_verify a)) (arg_scope a) 1 keys
          = Inr results \<and>
        list_all valid results)"
proof (cases "resolve_keys sys a")
  case None
  then show ?thesis
    by (simp add: main_no_keys)
next
  case (Some keys)
  show ?thesis
  proof (cases "validate_all sys (init_validator (arg_url a) (arg_skip_ssl_verify a))
                  (arg_scope a) 1 keys")
    case (Inl e)
    with Some show ?thesis
      by (simp add: main_raised)
  next
    case (Inr results)
    with Some show ?thesis
      by (simp add: main_completed)
  qed
qed

lemma main_exit_zero_or_one:
  "exit_code (main sys a) = 0 \<or> exit_code (main sys a) = 1"
  by (simp add: main_def Let_def split: option.splits sum.splits)

lemma raising_resolve: "resolve_keys raising_system example_args = Some [''key-1'', ''key-2'']"
proof -
  have "load_keys_from_file raising_system ''keys.txt''
          = load_keys_from_file example_system ''keys.txt''"
    by (simp add: load_keys_from_file_def raising_system_def)
  then show ?thesis
    by (simp add: resolve_keys_def example_args_def truthy_def run_load)
qed

lemma raising_validate_all:
  "validate_all raising_system
     (init_validator (arg_url example_args) (arg_skip_ssl_verify example_args))
     (arg_scope example_args) 1 [''key-1'', ''key-2'']
   = Inl (KeyError ''access_token'')"
proof -
  have v: "init_validator (arg_url example_args) (arg_skip_ssl_verify example_args)
             = example_validator"
    by (simp add: example_args_def example_validator_def)
  have s: "arg_scope example_args = None"
    by (simp add: example_args_def)
  have n: "net raising_system (Suc 0) = example_world token_without_access_token probe_granted"
    by (simp add: raising_system_def)
  have k: "validate_key (example_world token_without_access_token probe_granted)
             example_validator ''key-1'' None = Inl (KeyError ''access_token'')"
    by (simp add: eval_defs)
  show ?thesis
    by (simp add: v s n k)
qed

text \<open>
  Claim C7. For every run of \<^verbatim>\<open>main\<close>, the exit status is 0 exactly when the keys were
  resolved, every key got its result, and every result is valid; otherwise it is 1. In
  particular: with a result for every key, the status is 0 exactly when all results
  are valid; a run in which \<^verbatim>\<open>validate_key\<close> raises ends with status 1; the status is
  1 when no keys were resolved (the key file is empty or cannot be read, or no key was
  given); and whether the output file could be written does not change the status.
  (Parsing the command line and console output are not modelled.)
\<close>

theorem exit_code_contract:
  "(exit_code (main sys a) = 0 \<longleftrightarrow>
      (\<exists>keys results.
         resolve_keys sys a = Some keys \<and>
         validate_all sys (init_validator (arg_url a) (arg_skip_ssl_verify a)) (arg_scope a) 1 keys
           = Inr results \<and>
         list_all valid results)) \<and>
   (exit_code (main sys a) = 0 \<or> exit_code (main sys a) = 1) \<and>
   (\<forall>keys results.
      resolve_keys sys a = Some keys \<longrightarrow>
      validate_all sys (init_validator (arg_url a) (arg_skip_ssl_verify a)) (arg_scope a) 1 keys
        = Inr results \<longrightarrow>
      (exit_code (main sys a) = 0 \<longleftrightarrow> list_all valid results)) \<and>
   (\<forall>keys e.
      resolve_keys sys a = Some keys \<longrightarrow>
      validate_all sys (init_validator (arg_url a) (arg_skip_ssl_verify a)) (arg_scope a) 1 keys
        = Inl e \<longrightarrow>
      exit_code (main sys a) = 1) \<and>
   (resolve_keys sys a = None \<longrightarrow> exit_code (main sys a) = 1) \<and>
   (\<forall>filename. arg_file a = Some filename \<longrightarrow> filename \<noteq> [] \<longrightarrow>
      load_keys_from_file sys filename = [] \<longrightarrow> exit_code (main sys a) = 1) \<and>
   (\<forall>filename e. arg_file a = Some filename \<longrightarrow> filename \<noteq> [] \<longrightarrow>
      read_text sys filename = Inl e \<longrightarrow> exit_code (main sys a) = 1) \<and>
   (\<not> truthy (arg_file a) \<longrightarrow> \<not> truthy (arg_key a) \<longrightarrow> \<not> truthy (arg_key_arg a) \<longrightarrow>
      exit_code (main sys a) = 1) \<and>
   exit_code (main (sys\<lparr>save_results := s\<rparr>) a) = exit_code (main sys a)"
proof (intro conjI allI impI)
  show "exit_code (main sys a) = 0 \<longleftrightarrow>
      (\<exists>keys results.
         resolve_keys sys a = Some keys \<and>
         validate_all sys (init_validator (arg_url a) (arg_skip_ssl_verify a)) (arg_scope a) 1 keys
           = Inr results \<and>
         list_all valid results)"
    by (rule main_exit_zero_iff)
next
  show "exit_code (main sys a) = 0 \<or> exit_code (main sys a) = 1"
    by (rule main_exit_zero_or_one)
next
  fix keys results
  assume "resolve_keys sys a = Some keys"
    and "validate_all sys (init_validator (arg_url a) (arg_skip_ssl_verify a)) (arg_scope a) 1 keys
        = Inr results"
  then show "exit_code (main sys a) = 0 \<longleftrightarrow> list_all valid results"
    by (simp add: main_completed)
next
  fix keys e
  assume "resolve_keys sys a = Some keys"
    and "validate_all sys (init_validator (arg_url a) (arg_skip_ssl_verify a)) (arg_scope a) 1 keys
        = Inl e"
  then show "exit_code (main sys a) = 1"
    by (rule main_raised)
next
  assume "resolve_keys sys a = None"
  then show "exit_code (main sys a) = 1"
    by (rule main_no_keys)
next
  fix filename
  assume "arg_file a = Some filename" "filename \<noteq> []" "load_keys_from_file sys filename = []"
  then show "exit_code (main sys a) = 1"
    by (simp add: main_no_keys resolve_keys_empty_file)
next
  fix filename e
  assume "arg_file a = Some filename" "filename \<noteq> []" "read_text sys filename = Inl e"
  then show "exit_code (main sys a) = 1"
    by (simp add: main_no_keys resolve_keys_empty_file load_keys_missing_file)
next
  assume "\<not> truthy (arg_file a)" "\<not> truthy (arg_key a)" "\<not> truthy (arg_key_arg a)"
  then show "exit_code (main sys a) = 1"
    by (simp add: main_no_keys resolve_keys_no_key)
next
  show "exit_code (main (sys\<lparr>save_results := s\<rparr>) a) = exit_code (main sys a)"
    by (rule main_exit_code_save)
qed

theorem exit_code_contract_witness:
  "resolve_keys example_system example_args = Some [''key-1'', ''key-2''] \<and>
   validate_all example_system
     (init_validator (arg_url example_args) (arg_skip_ssl_verify example_args))
     (arg_scope example_args) 1 [''key-1'', ''key-2'']
   = Inr [expected_valid ''key-1'', expected_token_denied ''key-2''] \<and>
   \<not> list_all valid [expected_valid ''key-1'', expected_token_denied ''key-2''] \<and>
   exit_code (main example_system example_args) = 1 \<and>
   exit_code (main (example_system\<lparr>save_results := (\<lambda>f rs. None)\<rparr>) example_args)
     = exit_code (main example_system example_args) \<and>
   resolve_keys raising_system example_args = Some [''key-1'', ''key-2''] \<and>
   validate_all raising_system
     (init_validator (arg_url example_args) (arg_skip_ssl_verify example_args))
     (arg_scope example_args) 1 [''key-1'', ''key-2'']
   = Inl (KeyError ''access_token'') \<and>
   exit_code (main raising_system example_args) = 1"
proof -
  note c = exit_code_contract [of example_system example_args "\<lambda>f rs. None"]
  note d = exit_code_contract [of raising_system example_args "\<lambda>f rs. None"]
  have i: "\<not> list_all valid [expected_valid ''key-1'', expected_token_denied ''key-2'']"
    by (simp add: expected_token_denied_def expected_start_def)
  from c have "\<forall>keys results.
      resolve_keys example_system example_args = Some keys \<longrightarrow>
      validate_all example_system
        (init_validator (arg_url example_args) (arg_skip_ssl_verify example_args))
        (arg_scope example_args) 1 keys = Inr results \<longrightarrow>
      (exit_code (main example_system example_args) = 0 \<longleftrightarrow> list_all valid results)"
    by (elim conjE)
  with run_resolve run_validate_all
  have "exit_code (main example_system example_args) = 0 \<longleftrightarrow>
          list_all valid [expected_valid ''key-1'', expected_token_denied ''key-2'']"
    by blast
  with i have "exit_code (main example_system example_args) \<noteq> 0"
    by simp
  moreover from c have "exit_code (main example_system example_args) = 0 \<or>
      exit_code (main example_system example_args) = 1"
    by (elim conjE)
  ultimately have x: "exit_code (main example_system example_args) = 1"
    by simp
  from c have y: "exit_code (main (example_system\<lparr>save_results := (\<lambda>f rs. None)\<rparr>) example_args)
     = exit_code (main example_system example_args)"
    by (elim conjE)
  from d have "\<forall>keys e.
      resolve_keys raising_system example_args = Some keys \<longrightarrow>
      validate_all raising_system
        (init_validator (arg_url example_args) (arg_skip_ssl_verify example_args))
        (arg_scope example_args) 1 keys = Inl e \<longrightarrow>
      exit_code (main raising_system example_args) = 1"
    by (elim conjE)
  with raising_resolve raising_validate_all
  have z: "exit_code (main raising_system example_args) = 1"
    by blast
  from run_resolve run_validate_all i x y raising_resolve raising_validate_all z
  show ?thesis
    by (intro conjI)
qed

end
